theory Spec2Isabelle
  imports Main "HOL-Library.AList" "HOL-Library.Char_ord" "HOL-Library.List_Lexorder"
    "HOL-Library.Multiset"
begin

section \<open>The nmcli module: option mapping, change detection, reconciliation\<close>

text \<open>
  A shallow embedding of \<^verbatim>\<open>plugins/modules/nmcli.py\<close> (class \<^verbatim>\<open>Nmcli\<close> and
  \<^verbatim>\<open>main\<close>). Python strings are \<^typ>\<open>string\<close>; a character stands for the code point
  of the same number, so the text handled is text of code points below 256. White
  space, line boundaries, digits, word characters, lower case and \<^verbatim>\<open>repr\<close> are those of
  Python 3 on that range. Upper case is too, except for the two characters whose upper
  case lies beyond code point 255 (see \<open>upper\<close>).
\<close>

subsection \<open>Python values and strings\<close>

text \<open>
  The values the module stores in its option dictionaries: \<^verbatim>\<open>None\<close>, booleans, integers,
  strings and lists of strings. (The values of the free-form sub-option dictionaries
  \<^verbatim>\<open>wifi\<close>, \<^verbatim>\<open>vpn\<close>, ... are taken from the same universe.)
\<close>

datatype pyval = VNone | VBool bool | VInt int | VStr string | VList "string list"

text \<open>Python truthiness: \<^verbatim>\<open>if value:\<close>.\<close>

fun truthy :: "pyval \<Rightarrow> bool" where
  "truthy VNone = False"
| "truthy (VBool b) = b"
| "truthy (VInt i) = (i \<noteq> 0)"
| "truthy (VStr s) = (s \<noteq> [])"
| "truthy (VList l) = (l \<noteq> [])"

text \<open>
  \<^verbatim>\<open>str.isspace\<close> on one character, which is also the class \<^verbatim>\<open>\s\<close> of \<^verbatim>\<open>re\<close>: the ASCII
  white space, the separators \<^verbatim>\<open>\x1c\<close> to \<^verbatim>\<open>\x1f\<close>, next line \<^verbatim>\<open>\x85\<close> and the no-break
  space \<^verbatim>\<open>\xa0\<close>.
\<close>

definition is_space :: "char \<Rightarrow> bool" where
  "is_space c = (c \<in> {CHR 0x09, CHR 0x0A, CHR 0x0B, CHR 0x0C, CHR 0x0D,
                        CHR 0x1C, CHR 0x1D, CHR 0x1E, CHR 0x1F, CHR 0x20,
                        CHR 0x85, CHR 0xA0})"

definition is_digit :: "char \<Rightarrow> bool" where
  "is_digit c = (CHR ''0'' \<le> c \<and> c \<le> CHR ''9'')"

definition is_hexdigit :: "char \<Rightarrow> bool" where
  "is_hexdigit c = (is_digit c \<or> (CHR ''a'' \<le> c \<and> c \<le> CHR ''f'') \<or>
                    (CHR ''A'' \<le> c \<and> c \<le> CHR ''F''))"

text \<open>
  The class \<^verbatim>\<open>\w\<close> of \<^verbatim>\<open>re\<close>: the underscore and what \<^verbatim>\<open>str.isalnum\<close> accepts, which
  above ASCII is the letters, the ordinal indicators, the micro sign, the superscript
  digits and the fractions.
\<close>

definition is_word :: "char \<Rightarrow> bool" where
  "is_word c = (is_digit c \<or> (CHR ''a'' \<le> c \<and> c \<le> CHR ''z'') \<or>
                (CHR ''A'' \<le> c \<and> c \<le> CHR ''Z'') \<or> c = CHR ''_'' \<or>
                c \<in> {CHR 0xAA, CHR 0xB2, CHR 0xB3, CHR 0xB5, CHR 0xB9, CHR 0xBA,
                       CHR 0xBC, CHR 0xBD, CHR 0xBE} \<or>
                (CHR 0xC0 \<le> c \<and> c \<le> CHR 0xD6) \<or> (CHR 0xD8 \<le> c \<and> c \<le> CHR 0xF6) \<or>
                CHR 0xF8 \<le> c)"

text \<open>\<^verbatim>\<open>str.strip()\<close>, \<^verbatim>\<open>str.lstrip()\<close> and \<^verbatim>\<open>str.strip(chars)\<close> for one character.\<close>

definition lstrip :: "string \<Rightarrow> string" where
  "lstrip s = dropWhile is_space s"

definition rstrip :: "string \<Rightarrow> string" where
  "rstrip s = rev (dropWhile is_space (rev s))"

definition strip :: "string \<Rightarrow> string" where
  "strip s = rstrip (lstrip s)"

definition strip_char :: "char \<Rightarrow> string \<Rightarrow> string" where
  "strip_char q s = rev (dropWhile (\<lambda>c. c = q) (rev (dropWhile (\<lambda>c. c = q) s)))"

text \<open>
  \<^verbatim>\<open>str.splitlines()\<close>: a line ends at \<^verbatim>\<open>\n\<close>, \<^verbatim>\<open>\r\<close>, \<^verbatim>\<open>\r\n\<close>, \<^verbatim>\<open>\v\<close>, \<^verbatim>\<open>\f\<close>,
  \<^verbatim>\<open>\x1c\<close>, \<^verbatim>\<open>\x1d\<close>, \<^verbatim>\<open>\x1e\<close> or \<^verbatim>\<open>\x85\<close>; the terminators are dropped and a
  terminator at the very end opens no further line.
\<close>

definition is_linebreak :: "char \<Rightarrow> bool" where
  "is_linebreak c =
     (c \<in> {CHR 0x0A, CHR 0x0B, CHR 0x0C, CHR 0x0D, CHR 0x1C, CHR 0x1D, CHR 0x1E, CHR 0x85})"

fun splitlines_from :: "string \<Rightarrow> string \<Rightarrow> string list" where
  "splitlines_from cur [] = (if cur = [] then [] else [rev cur])"
| "splitlines_from cur [c] = (if is_linebreak c then [rev cur] else [rev (c # cur)])"
| "splitlines_from cur (c # d # cs) =
     (if c = CHR 0x0D \<and> d = CHR 0x0A then rev cur # splitlines_from [] cs
      else if is_linebreak c then rev cur # splitlines_from [] (d # cs)
      else splitlines_from (c # cur) (d # cs))"

definition splitlines :: "string \<Rightarrow> string list" where
  "splitlines s = splitlines_from [] s"

text \<open>\<^verbatim>\<open>s.split(sep)\<close> and \<^verbatim>\<open>s.split(sep, 1)\<close> for a separator of one character.\<close>

fun split_from :: "char \<Rightarrow> string \<Rightarrow> string \<Rightarrow> string list" where
  "split_from sep cur [] = [rev cur]"
| "split_from sep cur (c # cs) =
     (if c = sep then rev cur # split_from sep [] cs else split_from sep (c # cur) cs)"

definition split_all :: "char \<Rightarrow> string \<Rightarrow> string list" where
  "split_all sep s = split_from sep [] s"

definition split1 :: "char \<Rightarrow> string \<Rightarrow> string list" where
  "split1 sep s =
     (if sep \<in> set s then [takeWhile (\<lambda>c. c \<noteq> sep) s, tl (dropWhile (\<lambda>c. c \<noteq> sep) s)]
      else [s])"

text \<open>\<^verbatim>\<open>sep.join(parts)\<close>.\<close>

fun join :: "string \<Rightarrow> string list \<Rightarrow> string" where
  "join sep [] = []"
| "join sep [x] = x"
| "join sep (x # y # ys) = x @ sep @ join sep (y # ys)"

text \<open>\<^verbatim>\<open>s.startswith(p)\<close> and \<^verbatim>\<open>s.replace(old, '')\<close> for a non-empty \<^verbatim>\<open>old\<close>.\<close>

definition startswith :: "string \<Rightarrow> string \<Rightarrow> bool" where
  "startswith s p = (take (length p) s = p)"

fun remove_all :: "string \<Rightarrow> nat \<Rightarrow> string \<Rightarrow> string" where
  "remove_all old skip [] = []"
| "remove_all old skip (c # cs) =
     (if skip > 0 then remove_all old (skip - 1) cs
      else if old \<noteq> [] \<and> startswith (c # cs) old then remove_all old (length old - 1) cs
      else c # remove_all old 0 cs)"

text \<open>
  \<^verbatim>\<open>str.upper()\<close>: the ASCII and the accented small letters go to their capitals, the
  sharp s goes to \<^verbatim>\<open>SS\<close>. The micro sign \<^verbatim>\<open>\xb5\<close> and \<^verbatim>\<open>\xff\<close> have capitals beyond code
  point 255, which a \<^typ>\<open>char\<close> cannot hold: they are left as they are here, and a
  statement that depends on \<open>upper\<close> is made for text without them.
\<close>

definition upper_char :: "char \<Rightarrow> string" where
  "upper_char c =
     (if (CHR ''a'' \<le> c \<and> c \<le> CHR ''z'') \<or> (CHR 0xE0 \<le> c \<and> c \<le> CHR 0xFE \<and> c \<noteq> CHR 0xF7)
      then [char_of (of_char c - (32::nat))]
      else if c = CHR 0xDF then ''SS''
      else [c])"

definition upper :: "string \<Rightarrow> string" where
  "upper s = concat (map upper_char s)"

definition upper_exact :: "string \<Rightarrow> bool" where
  "upper_exact s = (CHR 0xB5 \<notin> set s \<and> CHR 0xFF \<notin> set s)"

text \<open>\<^verbatim>\<open>str.lower()\<close>: the ASCII and the accented capitals go to their small letters.\<close>

definition lower_char :: "char \<Rightarrow> char" where
  "lower_char c =
     (if (CHR ''A'' \<le> c \<and> c \<le> CHR ''Z'') \<or> (CHR 0xC0 \<le> c \<and> c \<le> CHR 0xDE \<and> c \<noteq> CHR 0xD7)
      then char_of (of_char c + (32::nat)) else c)"

definition lower :: "string \<Rightarrow> string" where
  "lower s = map lower_char s"

text \<open>\<^verbatim>\<open>str(n)\<close> for an integer, and \<^verbatim>\<open>int(digits, 16)\<close>.\<close>

definition digit_char :: "nat \<Rightarrow> char" where
  "digit_char d = char_of (48 + d)"

function digits10 :: "nat \<Rightarrow> string" where
  "digits10 n = (if n < 10 then [digit_char n] else digits10 (n div 10) @ [digit_char (n mod 10)])"
  by pat_completeness auto
termination
  by (relation "measure id") auto

declare digits10.simps [simp del]

definition str_of_int :: "int \<Rightarrow> string" where
  "str_of_int i = (if i < 0 then CHR ''-'' # digits10 (nat (- i)) else digits10 (nat i))"

definition hex_value :: "char \<Rightarrow> nat" where
  "hex_value c =
     (if is_digit c then of_char c - 48
      else if CHR ''a'' \<le> c \<and> c \<le> CHR ''f'' then of_char c - 87
      else of_char c - 55)"

definition int_of_hex :: "string \<Rightarrow> nat" where
  "int_of_hex s = foldl (\<lambda>acc c. 16 * acc + hex_value c) 0 s"

subsection \<open>Module parameters and the \<^verbatim>\<open>Nmcli\<close> object\<close>

text \<open>
  \<^verbatim>\<open>module.params\<close>, typed as \<^verbatim>\<open>argument_spec\<close> declares it: a parameter without a default
  may be \<^verbatim>\<open>None\<close>; \<^verbatim>\<open>conn_name\<close> and \<^verbatim>\<open>state\<close> are required. An ordered dictionary is an
  association list with distinct keys, updated by \<^const>\<open>AList.update\<close> (an existing key
  keeps its place, a new key goes to the end).
\<close>

type_synonym dict = "(string \<times> pyval) list"

record module_params =
  ignore_unsupported_suboptions :: bool
  autoconnect :: bool
  autoconnect_priority :: "int option"
  autoconnect_retries :: "int option"
  state :: string
  conn_name :: string
  conn_reload :: bool
  master :: "string option"
  slave_type :: "string option"
  ifname :: "string option"
  type :: "string option"
  ip4 :: "string list option"
  gw4 :: "string option"
  gw4_ignore_auto :: bool
  routes4 :: "string list option"
  routes4_extended :: "dict list option"
  route_metric4 :: "int option"
  routing_rules4 :: "string list option"
  never_default4 :: bool
  dns4 :: "string list option"
  dns4_search :: "string list option"
  dns4_options :: "string list option"
  dns4_ignore_auto :: bool
  method4 :: "string option"
  may_fail4 :: bool
  dhcp_client_id :: "string option"
  ip6 :: "string list option"
  gw6 :: "string option"
  gw6_ignore_auto :: bool
  dns6 :: "string list option"
  dns6_search :: "string list option"
  dns6_options :: "string list option"
  dns6_ignore_auto :: bool
  routes6 :: "string list option"
  routes6_extended :: "dict list option"
  route_metric6 :: "int option"
  method6 :: "string option"
  ip_privacy6 :: "string option"
  addr_gen_mode6 :: "string option"
  mode :: string
  miimon :: "int option"
  downdelay :: "int option"
  updelay :: "int option"
  xmit_hash_policy :: "string option"
  fail_over_mac :: "string option"
  arp_interval :: "int option"
  arp_ip_target :: "string option"
  primary :: "string option"
  mtu :: "int option"
  mac :: "string option"
  zone :: "string option"
  stp :: bool
  priority :: int
  slavepriority :: int
  forwarddelay :: int
  hellotime :: int
  maxage :: int
  ageingtime :: int
  hairpin :: bool
  path_cost :: int
  runner :: string
  runner_hwaddr_policy :: "string option"
  runner_fast_rate :: "bool option"
  vlanid :: "int option"
  vlandev :: "string option"
  flags :: "string option"
  ingress :: "string option"
  egress :: "string option"
  vxlan_id :: "int option"
  vxlan_local :: "string option"
  vxlan_remote :: "string option"
  ip_tunnel_dev :: "string option"
  ip_tunnel_local :: "string option"
  ip_tunnel_remote :: "string option"
  ip_tunnel_input_key :: "string option"
  ip_tunnel_output_key :: "string option"
  ssid :: "string option"
  wifi :: "dict option"
  wifi_sec :: "dict option"
  gsm :: "dict option"
  macvlan :: "dict option"
  wireguard :: "dict option"
  vpn :: "dict option"
  sriov :: "dict option"
  table :: "int option"
  transport_mode :: "string option"
  infiniband_mac :: "string option"

text \<open>
  The attributes \<^verbatim>\<open>Nmcli.__init__\<close> adds to the parameters. \<^verbatim>\<open>self.table\<close> exists only when
  the type given at construction is \<^verbatim>\<open>vrf\<close>, which \<open>has_table\<close> records.
\<close>

record nmcli = module_params +
  nmcli_bin :: string
  ipv4_method :: "string option"
  ipv6_method :: "string option"
  has_table :: bool
  edit_commands :: "string list"

text \<open>\<^verbatim>\<open>AnsibleModule\<close>: the parameters, \<^verbatim>\<open>check_mode\<close> and \<^verbatim>\<open>_diff\<close>.\<close>

record ansible_module =
  params :: "unit module_params_scheme"
  check_mode :: bool
  diff_mode :: bool

subsection \<open>The external tool, exits and the run state\<close>

text \<open>
  One call of \<^verbatim>\<open>module.run_command\<close>: the argument vector and the text fed to standard
  input. The tool is any function from the calls made so far and the present call to an
  exit code, standard output and standard error.
\<close>

datatype cmd = Cmd (argv: "string list") (stdin: "string option")

type_synonym response = "int \<times> string \<times> string"

type_synonym tool = "cmd list \<Rightarrow> cmd \<Rightarrow> response"

text \<open>
  What ends a run: \<^verbatim>\<open>module.exit_json\<close>, \<^verbatim>\<open>module.fail_json\<close> (both leave the process),
  a raised \<^verbatim>\<open>NmcliModuleError\<close>, or another Python exception, which nothing catches.
\<close>

type_synonym diff = "(string \<times> pyval) list \<times> (string \<times> pyval) list"

record result =
  res_changed :: bool
  res_conn_name :: "string option"
  res_state :: "string option"
  res_diff :: "diff option"
  res_Exists :: "string option"
  res_Connection :: "string option"
  res_stdout :: "string option"
  res_stderr :: "string option"

datatype exit =
    Exit_json result
  | Fail_json (fail_name: "string option") (fail_msg: string) (fail_rc: "int option")
  | NmcliModuleError string
  | PyError string

record st =
  self :: nmcli
  trace :: "cmd list"

type_synonym 'a run = "st \<Rightarrow> (exit + 'a) \<times> st"

definition bind :: "'a run \<Rightarrow> ('a \<Rightarrow> 'b run) \<Rightarrow> 'b run" where
  "bind m f s = (case m s of (Inl e, s') \<Rightarrow> (Inl e, s') | (Inr x, s') \<Rightarrow> f x s')"

definition return :: "'a \<Rightarrow> 'a run" where
  "return x s = (Inr x, s)"

definition leave :: "exit \<Rightarrow> 'a run" where
  "leave e s = (Inl e, s)"

text \<open>\<^verbatim>\<open>execute_command\<close>: answer from the tool, and the call is recorded.\<close>

definition execute_command :: "tool \<Rightarrow> cmd \<Rightarrow> response run" where
  "execute_command t c s = (Inr (t (trace s) c), s\<lparr>trace := trace s @ [c]\<rparr>)"

definition execute_edit_commands :: "tool \<Rightarrow> string list \<Rightarrow> string list \<Rightarrow> response run" where
  "execute_edit_commands t commands arguments s =
     execute_command t
       (Cmd ([nmcli_bin (self s), ''con'', ''edit''] @ arguments)
            (Some (join [CHR 0x0A] commands))) s"

subsection \<open>Setting types\<close>

datatype setting_type = TBool | TList | TInt | TStr

definition settings_type :: "string \<Rightarrow> setting_type" where
  "settings_type setting =
     (if setting \<in> set [''bridge.stp'',
                         ''bridge-port.hairpin-mode'',
                         ''connection.autoconnect'',
                         ''ipv4.never-default'',
                         ''ipv4.ignore-auto-dns'',
                         ''ipv4.ignore-auto-routes'',
                         ''ipv4.may-fail'',
                         ''ipv6.ignore-auto-dns'',
                         ''ipv6.ignore-auto-routes'',
                         ''802-11-wireless.hidden'',
                         ''team.runner-fast-rate''] then TBool
      else if setting \<in> set [''ipv4.addresses'',
                              ''ipv6.addresses'',
                              ''ipv4.dns'',
                              ''ipv4.dns-search'',
                              ''ipv4.dns-options'',
                              ''ipv4.routes'',
                              ''ipv4.routing-rules'',
                              ''ipv6.dns'',
                              ''ipv6.dns-search'',
                              ''ipv6.dns-options'',
                              ''ipv6.routes'',
                              ''802-11-wireless-security.group'',
                              ''802-11-wireless-security.leap-password-flags'',
                              ''802-11-wireless-security.pairwise'',
                              ''802-11-wireless-security.proto'',
                              ''802-11-wireless-security.psk-flags'',
                              ''802-11-wireless-security.wep-key-flags'',
                              ''802-11-wireless.mac-address-blacklist''] then TList
      else if setting \<in> set [''connection.autoconnect-priority'',
                              ''connection.autoconnect-retries''] then TInt
      else TStr)"

subsection \<open>Reading the observed state\<close>

text \<open>
  \<^verbatim>\<open>p_enum_value.match(raw_value)\<close> with the pattern \<^verbatim>\<open>^([-]?\d+) \((\w+)\)$\<close>: the first
  group when the text matches. Every repetition is followed by a character outside its
  class, so the greedy match is the only one; \<^verbatim>\<open>$\<close> also matches before a final newline.
\<close>

definition enum_value :: "string \<Rightarrow> string option" where
  "enum_value raw_value =
     (let sign = (if raw_value \<noteq> [] \<and> hd raw_value = CHR ''-'' then ''-'' else []);
          r1 = drop (length sign) raw_value;
          ds = takeWhile is_digit r1;
          r2 = dropWhile is_digit r1;
          name = takeWhile is_word (drop 2 r2);
          r3 = dropWhile is_word (drop 2 r2)
      in if ds \<noteq> [] \<and> take 2 r2 = '' ('' \<and> name \<noteq> [] \<and> (r3 = '')'' \<or> r3 = [CHR '')'', CHR 0x0A])
         then Some (sign @ ds) else None)"

text \<open>The body of the loop of \<^verbatim>\<open>show_connection\<close> over the lines of the output.\<close>

definition show_connection_line :: "(string \<rightharpoonup> pyval) \<Rightarrow> string \<Rightarrow> (string \<rightharpoonup> pyval)" where
  "show_connection_line conn_info line =
     (let pair = split1 CHR '':'' line;
          key = strip (pair ! 0);
          key_type = settings_type key
      in if key \<noteq> [] \<and> length pair > 1 then
           (let raw_value = lstrip (pair ! 1)
            in if raw_value = ''--'' then
                 (if key_type = TList then conn_info(key \<mapsto> VList [])
                  else conn_info(key \<mapsto> VNone))
               else if key = ''bond.options'' then
                 foldl (\<lambda>ci opt.
                          let alias_pair = split1 CHR ''='' opt
                          in if length alias_pair > 1
                             then ci(alias_pair ! 0 \<mapsto> VStr (alias_pair ! 1)) else ci)
                       conn_info (split_all CHR '','' raw_value)
               else if key \<in> {''ipv4.routes'', ''ipv6.routes''} then
                 conn_info(key \<mapsto> VList (map strip (split_all CHR '';'' raw_value)))
               else if key_type = TList then
                 conn_info(key \<mapsto> VList (map strip (split_all CHR '','' raw_value)))
               else
                 conn_info(key \<mapsto> VStr (case enum_value raw_value of
                                            Some v \<Rightarrow> v | None \<Rightarrow> raw_value)))
         else conn_info)"

definition parse_connection :: "string \<Rightarrow> (string \<rightharpoonup> pyval)" where
  "parse_connection out = foldl show_connection_line Map.empty (splitlines out)"

definition show_cmd :: "string \<Rightarrow> string \<Rightarrow> cmd" where
  "show_cmd bin name = Cmd [bin, ''--show-secrets'', ''con'', ''show'', name] None"

definition show_connection :: "tool \<Rightarrow> (string \<rightharpoonup> pyval) run" where
  "show_connection t s =
     bind (execute_command t (show_cmd (nmcli_bin (self s)) (conn_name (self s))))
       (\<lambda>(rc, out, err).
          if rc \<noteq> 0 then leave (NmcliModuleError err)
          else return (parse_connection out)) s"


subsection \<open>CIDR suffix defaulting\<close>

text \<open>
  \<^verbatim>\<open>enforce_ipv4_cidr_notation\<close> and \<^verbatim>\<open>enforce_ipv6_cidr_notation\<close>: \<^verbatim>\<open>None\<close> stays
  \<^verbatim>\<open>None\<close>; otherwise every address without \<^verbatim>\<open>'/'\<close> gets the default suffix.
\<close>

fun enforce_ipv4_cidr_notation :: "string list option \<Rightarrow> string list option" where
  "enforce_ipv4_cidr_notation None = None"
| "enforce_ipv4_cidr_notation (Some ip4_addresses) =
     Some (map (\<lambda>address. if CHR ''/'' \<in> set address then address else address @ ''/32'')
             ip4_addresses)"

fun enforce_ipv6_cidr_notation :: "string list option \<Rightarrow> string list option" where
  "enforce_ipv6_cidr_notation None = None"
| "enforce_ipv6_cidr_notation (Some ip6_addresses) =
     Some (map (\<lambda>address. if CHR ''/'' \<in> set address then address else address @ ''/128'')
             ip6_addresses)"

subsection \<open>Conversions of option values\<close>

text \<open>
  \<^verbatim>\<open>repr\<close> of a string: double quotes when the text holds a single quote and no double
  quote, single quotes otherwise; the quote and the backslash are escaped, and what is
  not printable (the control characters up to \<^verbatim>\<open>\x9f\<close>, the no-break space, the soft
  hyphen) is written \<^verbatim>\<open>\t\<close>, \<^verbatim>\<open>\n\<close>, \<^verbatim>\<open>\r\<close> or \<^verbatim>\<open>\xNN\<close>.
\<close>

definition hex_digit_char :: "nat \<Rightarrow> char" where
  "hex_digit_char d = (if d < 10 then char_of (48 + d) else char_of (87 + d))"

definition repr_char :: "char \<Rightarrow> char \<Rightarrow> string" where
  "repr_char quote c =
     (if c = quote \<or> c = CHR 0x5C then [CHR 0x5C, c]
      else if c = CHR 0x09 then [CHR 0x5C, CHR ''t'']
      else if c = CHR 0x0A then [CHR 0x5C, CHR ''n'']
      else if c = CHR 0x0D then [CHR 0x5C, CHR ''r'']
      else if c < CHR 0x20 \<or> (CHR 0x7F \<le> c \<and> c \<le> CHR 0xA0) \<or> c = CHR 0xAD then
        [CHR 0x5C, CHR ''x'', hex_digit_char (of_char c div 16), hex_digit_char (of_char c mod 16)]
      else [c])"

definition repr_str :: "string \<Rightarrow> string" where
  "repr_str s =
     (let quote = (if CHR 0x27 \<in> set s \<and> CHR 0x22 \<notin> set s then CHR 0x22 else CHR 0x27)
      in quote # concat (map (repr_char quote) s) @ [quote])"

text \<open>\<^verbatim>\<open>to_text(value)\<close>, which is \<^verbatim>\<open>str(value)\<close> for what is not text already.\<close>

fun to_text :: "pyval \<Rightarrow> string" where
  "to_text VNone = ''None''"
| "to_text (VBool b) = (if b then ''True'' else ''False'')"
| "to_text (VInt i) = str_of_int i"
| "to_text (VStr s) = s"
| "to_text (VList l) = ''['' @ join '', '' (map repr_str l) @ '']''"

definition bool_to_string :: "pyval \<Rightarrow> pyval" where
  "bool_to_string boolean = (if truthy boolean then VStr ''yes'' else VStr ''no'')"

definition mtu_to_string :: "pyval \<Rightarrow> pyval" where
  "mtu_to_string v = (if \<not> truthy v then VStr ''auto'' else VStr (to_text v))"

definition ip6_privacy_values :: "(string \<times> string) list" where
  "ip6_privacy_values =
     [(''disabled'', ''0''),
      (''prefer-public-addr'', ''1 (enabled, prefer public IP)''),
      (''prefer-temp-addr'', ''2 (enabled, prefer temporary IP)''),
      (''unknown'', ''-1'')]"

fun ip6_privacy_to_num :: "pyval \<Rightarrow> exit + pyval" where
  "ip6_privacy_to_num VNone = Inr VNone"
| "ip6_privacy_to_num (VStr privacy) =
     (case map_of ip6_privacy_values privacy of
        None \<Rightarrow> Inl (PyError ''AssertionError'')
      | Some v \<Rightarrow> Inr (VStr v))"
| "ip6_privacy_to_num (VList l) = Inl (PyError ''TypeError'')"
| "ip6_privacy_to_num v = Inl (PyError ''AssertionError'')"

text \<open>
  \<^verbatim>\<open>list_to_string\<close>: \<^verbatim>\<open>",".join(lst)\<close>. Joining a string joins its characters; a number
  is not iterable.
\<close>

fun list_to_string :: "pyval \<Rightarrow> exit + pyval" where
  "list_to_string VNone = Inr VNone"
| "list_to_string (VList lst) = Inr (VStr (join '','' lst))"
| "list_to_string (VStr s) = Inr (VStr (join '','' (map (\<lambda>c. [c]) s)))"
| "list_to_string v = Inl (PyError ''TypeError'')"

definition ostr :: "string option \<Rightarrow> pyval" where
  "ostr x = (case x of None \<Rightarrow> VNone | Some s \<Rightarrow> VStr s)"

definition oint :: "int option \<Rightarrow> pyval" where
  "oint x = (case x of None \<Rightarrow> VNone | Some i \<Rightarrow> VInt i)"

definition obool :: "bool option \<Rightarrow> pyval" where
  "obool x = (case x of None \<Rightarrow> VNone | Some b \<Rightarrow> VBool b)"

definition olist :: "string list option \<Rightarrow> pyval" where
  "olist x = (case x of None \<Rightarrow> VNone | Some l \<Rightarrow> VList l)"

text \<open>\<^verbatim>\<open>options.update({...})\<close>, entry by entry.\<close>

definition update_all :: "(string \<times> pyval) list \<Rightarrow> dict \<Rightarrow> dict" where
  "update_all kvs options = foldl (\<lambda>d (k, v). AList.update k v d) options kvs"

subsection \<open>Routes\<close>

text \<open>
  \<^verbatim>\<open>route_to_string\<close>: \<^verbatim>\<open>route['ip']\<close> raises \<^verbatim>\<open>KeyError\<close> when the key is missing, and
  adding a value that is not text to the result raises \<^verbatim>\<open>TypeError\<close>.
\<close>

definition route_to_string :: "dict \<Rightarrow> exit + string" where
  "route_to_string route =
     (case map_of route ''ip'' of
        None \<Rightarrow> Inl (PyError ''KeyError'')
      | Some (VStr ip) \<Rightarrow>
          (let hop = (case map_of route ''next_hop'' of
                        None \<Rightarrow> Inr [] | Some VNone \<Rightarrow> Inr []
                      | Some (VStr h) \<Rightarrow> Inr ('' '' @ h)
                      | Some _ \<Rightarrow> Inl (PyError ''TypeError''));
               metric = (case map_of route ''metric'' of
                           None \<Rightarrow> [] | Some VNone \<Rightarrow> []
                         | Some m \<Rightarrow> '' '' @ to_text m);
               attrs = concat (map (\<lambda>(attribute, v).
                          if attribute \<notin> {''ip'', ''next_hop'', ''metric''} \<and> v \<noteq> VNone
                          then '' '' @ attribute @ ''='' @ lower (to_text v) else [])
                        (sort_key fst route))
           in case hop of Inl e \<Rightarrow> Inl e | Inr h \<Rightarrow> Inr (ip @ h @ metric @ attrs))
      | Some _ \<Rightarrow> Inl (PyError ''TypeError''))"

text \<open>A list comprehension whose body may raise: the first failure ends it.\<close>

fun map_exit :: "('a \<Rightarrow> exit + 'b) \<Rightarrow> 'a list \<Rightarrow> exit + 'b list" where
  "map_exit f [] = Inr []"
| "map_exit f (x # xs) =
     (case f x of Inl e \<Rightarrow> Inl e
      | Inr y \<Rightarrow> (case map_exit f xs of Inl e \<Rightarrow> Inl e | Inr ys \<Rightarrow> Inr (y # ys)))"

definition enforce_routes_format :: "string list option \<Rightarrow> dict list option \<Rightarrow> exit + pyval" where
  "enforce_routes_format routes routes_extended =
     (case routes of
        Some r \<Rightarrow> Inr (VList r)
      | None \<Rightarrow>
          (case routes_extended of
             Some rs \<Rightarrow> (case map_exit route_to_string rs of
                           Inl e \<Rightarrow> Inl e | Inr l \<Rightarrow> Inr (VList l))
           | None \<Rightarrow> Inr VNone))"

text \<open>
  \<^verbatim>\<open>re.findall(r'([\w-]*)\s?=\s?([^\s,}]*)', raw_value)\<close>. A match at a position takes the
  longest run of word characters and hyphens, one optional white space, the equals sign,
  one optional white space and the longest run of characters other than white space,
  comma and closing brace; no shorter choice can reach the equals sign. The search goes
  on after a match, and one character further where there is none.
\<close>

definition route_param_at :: "string \<Rightarrow> ((string \<times> string) \<times> nat) option" where
  "route_param_at s =
     (let name = takeWhile (\<lambda>c. is_word c \<or> c = CHR ''-'') s;
          r1 = dropWhile (\<lambda>c. is_word c \<or> c = CHR ''-'') s;
          r2 = (if r1 \<noteq> [] \<and> is_space (hd r1) then tl r1 else r1)
      in if r2 \<noteq> [] \<and> hd r2 = CHR ''='' then
           (let r3 = tl r2;
                r4 = (if r3 \<noteq> [] \<and> is_space (hd r3) then tl r3 else r3);
                v = takeWhile (\<lambda>c. \<not> is_space c \<and> c \<noteq> CHR '','' \<and> c \<noteq> CHR ''}'') r4
            in Some ((name, v), length s - length r4 + length v))
         else None)"

fun route_findall :: "nat \<Rightarrow> string \<Rightarrow> (string \<times> string) list" where
  "route_findall skip [] = []"
| "route_findall skip (c # cs) =
     (if skip > 0 then route_findall (skip - 1) cs
      else case route_param_at (c # cs) of
             None \<Rightarrow> route_findall 0 cs
           | Some (pair, n) \<Rightarrow> pair # route_findall (n - 1) cs)"

definition route_params_of :: "string \<Rightarrow> dict" where
  "route_params_of raw_value =
     foldl (\<lambda>route_params (parameter, v).
              if parameter = ''nh'' then AList.update ''next_hop'' (VStr v) route_params
              else if parameter = ''mt'' then AList.update ''metric'' (VStr v) route_params
              else AList.update parameter (VStr v) route_params)
           [] (route_findall 0 raw_value)"

text \<open>
  \<^verbatim>\<open>get_route_params\<close> iterates over the observed value: over the entries of a list, over
  the characters of a string.
\<close>

fun get_route_params :: "pyval \<Rightarrow> exit + pyval" where
  "get_route_params (VList raw_values) =
     (case map_exit route_to_string (map route_params_of raw_values) of
        Inl e \<Rightarrow> Inl e | Inr l \<Rightarrow> Inr (VList l))"
| "get_route_params (VStr raw) =
     (case map_exit route_to_string (map (\<lambda>c. route_params_of [c]) raw) of
        Inl e \<Rightarrow> Inl e | Inr l \<Rightarrow> Inr (VList l))"
| "get_route_params v = Inl (PyError ''TypeError'')"

subsection \<open>The option mapper\<close>

definition type_in :: "nmcli \<Rightarrow> string list \<Rightarrow> bool" where
  "type_in n ts = (case type n of None \<Rightarrow> False | Some t \<Rightarrow> t \<in> set ts)"

definition ip_conn_type :: "nmcli \<Rightarrow> bool" where
  "ip_conn_type n =
     type_in n [''bond'', ''bridge'', ''dummy'', ''ethernet'', ''802-3-ethernet'', ''generic'',
                ''gre'', ''infiniband'', ''ipip'', ''sit'', ''team'', ''vlan'', ''wifi'',
                ''802-11-wireless'', ''gsm'', ''macvlan'', ''wireguard'', ''vpn'', ''loopback'',
                ''ovs-interface'', ''vrf'']"

definition mac_setting :: "nmcli \<Rightarrow> string" where
  "mac_setting n =
     (if type n = Some ''bridge'' then ''bridge.mac-address''
      else ''802-3-ethernet.cloned-mac-address'')"

definition mtu_conn_type :: "nmcli \<Rightarrow> bool" where
  "mtu_conn_type n =
     type_in n [''bond'', ''bond-slave'', ''dummy'', ''ethernet'', ''infiniband'', ''team-slave'',
                ''vlan'']"

definition mtu_setting :: "nmcli \<Rightarrow> string" where
  "mtu_setting n =
     (if type n = Some ''infiniband'' then ''infiniband.mtu'' else ''802-3-ethernet.mtu'')"

definition slave_conn_type :: "nmcli \<Rightarrow> bool" where
  "slave_conn_type n =
     type_in n [''ethernet'', ''bridge'', ''bond'', ''vlan'', ''team'', ''wifi'', ''bond-slave'',
                ''bridge-slave'', ''team-slave'', ''wifi'', ''infiniband'', ''ovs-port'',
                ''ovs-interface'']"

definition tunnel_conn_type :: "nmcli \<Rightarrow> bool" where
  "tunnel_conn_type n = type_in n [''gre'', ''ipip'', ''sit'']"

definition bind_exit :: "exit + 'a \<Rightarrow> ('a \<Rightarrow> exit + 'b) \<Rightarrow> exit + 'b" where
  "bind_exit m f = (case m of Inl e \<Rightarrow> Inl e | Inr x \<Rightarrow> f x)"

text \<open>The IP address options, added for a type that carries addresses.\<close>

definition ip_options :: "nmcli \<Rightarrow> dict \<Rightarrow> exit + dict" where
  "ip_options n options =
     bind_exit (enforce_routes_format (routes4 n) (routes4_extended n)) (\<lambda>r4.
     bind_exit (enforce_routes_format (routes6 n) (routes6_extended n)) (\<lambda>r6.
       let options = update_all
             [(''ipv4.addresses'', olist (enforce_ipv4_cidr_notation (ip4 n))),
              (''ipv4.dhcp-client-id'', ostr (dhcp_client_id n)),
              (''ipv4.dns'', olist (dns4 n)),
              (''ipv4.dns-search'', olist (dns4_search n)),
              (''ipv4.dns-options'', olist (dns4_options n)),
              (''ipv4.ignore-auto-dns'', VBool (dns4_ignore_auto n)),
              (''ipv4.gateway'', ostr (gw4 n)),
              (''ipv4.ignore-auto-routes'', VBool (gw4_ignore_auto n)),
              (''ipv4.routes'', r4),
              (''ipv4.route-metric'', oint (route_metric4 n)),
              (''ipv4.routing-rules'', olist (routing_rules4 n)),
              (''ipv4.never-default'', VBool (never_default4 n)),
              (''ipv4.method'', ostr (ipv4_method n)),
              (''ipv4.may-fail'', VBool (may_fail4 n)),
              (''ipv6.addresses'', olist (enforce_ipv6_cidr_notation (ip6 n))),
              (''ipv6.dns'', olist (dns6 n)),
              (''ipv6.dns-search'', olist (dns6_search n)),
              (''ipv6.dns-options'', olist (dns6_options n)),
              (''ipv6.ignore-auto-dns'', VBool (dns6_ignore_auto n)),
              (''ipv6.gateway'', ostr (gw6 n)),
              (''ipv6.ignore-auto-routes'', VBool (gw6_ignore_auto n)),
              (''ipv6.routes'', r6),
              (''ipv6.route-metric'', oint (route_metric6 n)),
              (''ipv6.method'', ostr (ipv6_method n)),
              (''ipv6.ip6-privacy'', ostr (ip_privacy6 n)),
              (''ipv6.addr-gen-mode'', ostr (addr_gen_mode6 n))] options
       in Inr (if truthy (ostr (ipv4_method n)) \<and> ipv4_method n \<noteq> Some ''disabled''
               then AList.update ''ipv4.may-fail'' (VBool (may_fail4 n)) options
               else options)))"

definition quoted :: "string \<Rightarrow> string" where
  "quoted s = [CHR 0x27] @ s @ [CHR 0x27]"

text \<open>
  The check of \<^verbatim>\<open>slave_type\<close> made for the types \<^verbatim>\<open>bond-slave\<close>, \<^verbatim>\<open>bridge-slave\<close> and
  \<^verbatim>\<open>team-slave\<close>, and the default it sets.
\<close>

definition slave_kind_options :: "nmcli \<Rightarrow> string \<Rightarrow> dict \<Rightarrow> exit + dict" where
  "slave_kind_options n kind options =
     (if truthy (ostr (slave_type n)) \<and> slave_type n \<noteq> Some kind then
        Inl (Fail_json None
               (''Connection type '' @ quoted (to_text (ostr (type n))) @
                '' cannot be combined with '' @ quoted (to_text (ostr (slave_type n))) @
                '' slave-type. Allowed slave-type for '' @ quoted (to_text (ostr (type n))) @
                '' is '' @ quoted kind @ ''.'') None)
      else if \<not> truthy (ostr (slave_type n))
        then Inr (AList.update ''connection.slave-type'' (VStr kind) options)
      else Inr options)"

definition prefixed_options :: "string \<Rightarrow> dict \<Rightarrow> dict \<Rightarrow> dict" where
  "prefixed_options prefix items options =
     foldl (\<lambda>d (name, v). AList.update (prefix @ name) v d) options items"

text \<open>The loop over \<^verbatim>\<open>self.vpn.items()\<close>, with \<^verbatim>\<open>vpn_data_values\<close> carried along.\<close>

definition vpn_item :: "dict \<times> string \<Rightarrow> string \<times> pyval \<Rightarrow> dict \<times> string" where
  "vpn_item acc item =
     (case (acc, item) of ((options, vpn_data_values), (name, v)) \<Rightarrow>
        let (options, vpn_data_values) =
              (if name = ''service-type'' then
                 (AList.update ''vpn.service-type'' v options, vpn_data_values)
               else if name = ''permissions'' then
                 (AList.update ''connection.permissions'' v options, vpn_data_values)
               else
                 (options,
                  (if vpn_data_values \<noteq> [] then vpn_data_values @ '', '' else vpn_data_values) @
                  name @ ''='' @
                  to_text (case v of VBool b \<Rightarrow> bool_to_string v | _ \<Rightarrow> v)))
        in (AList.update ''vpn.data'' (VStr vpn_data_values) options, vpn_data_values))"

text \<open>The options of the connection type: the \<^verbatim>\<open>if\<close>/\<^verbatim>\<open>elif\<close> chain on \<^verbatim>\<open>self.type\<close>.\<close>

definition type_options :: "nmcli \<Rightarrow> dict \<Rightarrow> exit + dict" where
  "type_options n options =
     (if type n = Some ''bond'' then
        Inr (update_all
               [(''arp-interval'', oint (arp_interval n)),
                (''arp-ip-target'', ostr (arp_ip_target n)),
                (''downdelay'', oint (downdelay n)),
                (''miimon'', oint (miimon n)),
                (''mode'', VStr (mode n)),
                (''primary'', ostr (primary n)),
                (''updelay'', oint (updelay n)),
                (''xmit_hash_policy'', ostr (xmit_hash_policy n)),
                (''fail_over_mac'', ostr (fail_over_mac n))] options)
      else if type n = Some ''bond-slave'' then slave_kind_options n ''bond'' options
      else if type n = Some ''bridge'' then
        (let options = update_all
               [(''bridge.ageing-time'', VInt (ageingtime n)),
                (''bridge.forward-delay'', VInt (forwarddelay n)),
                (''bridge.hello-time'', VInt (hellotime n)),
                (''bridge.max-age'', VInt (maxage n)),
                (''bridge.priority'', VInt (priority n)),
                (''bridge.stp'', VBool (stp n))] options
         in Inr (if stp n then AList.update ''bridge.priority'' (VInt (priority n)) options
                 else options))
      else if type n = Some ''team'' then
        (let options = update_all
               [(''team.runner'', VStr (runner n)),
                (''team.runner-hwaddr-policy'', ostr (runner_hwaddr_policy n))] options
         in Inr (if runner_fast_rate n \<noteq> None
                 then AList.update ''team.runner-fast-rate'' (obool (runner_fast_rate n)) options
                 else options))
      else if type n = Some ''bridge-slave'' then
        bind_exit (slave_kind_options n ''bridge'' options) (\<lambda>options.
          Inr (update_all
                 [(''bridge-port.path-cost'', VInt (path_cost n)),
                  (''bridge-port.hairpin-mode'', VBool (hairpin n)),
                  (''bridge-port.priority'', VInt (slavepriority n))] options))
      else if type n = Some ''team-slave'' then slave_kind_options n ''team'' options
      else if tunnel_conn_type n then
        (let options = update_all
               [(''ip-tunnel.local'', ostr (ip_tunnel_local n)),
                (''ip-tunnel.mode'', ostr (type n)),
                (''ip-tunnel.parent'', ostr (ip_tunnel_dev n)),
                (''ip-tunnel.remote'', ostr (ip_tunnel_remote n))] options
         in Inr (if type n = Some ''gre''
                 then update_all
                        [(''ip-tunnel.input-key'', ostr (ip_tunnel_input_key n)),
                         (''ip-tunnel.output-key'', ostr (ip_tunnel_output_key n))] options
                 else options))
      else if type n = Some ''vlan'' then
        Inr (update_all
               [(''vlan.id'', oint (vlanid n)),
                (''vlan.parent'', ostr (vlandev n)),
                (''vlan.flags'', ostr (flags n)),
                (''vlan.ingress'', ostr (ingress n)),
                (''vlan.egress'', ostr (egress n))] options)
      else if type n = Some ''vxlan'' then
        Inr (update_all
               [(''vxlan.id'', oint (vxlan_id n)),
                (''vxlan.local'', ostr (vxlan_local n)),
                (''vxlan.remote'', ostr (vxlan_remote n))] options)
      else if type n = Some ''wifi'' then
        (let options = update_all
               [(''802-11-wireless.ssid'', ostr (ssid n)),
                (''connection.slave-type'',
                   (if truthy (ostr (master n))
                    then (if slave_type n = None then VStr ''bond'' else ostr (slave_type n))
                    else VNone))] options;
             options = (case wifi n of None \<Rightarrow> options
                        | Some items \<Rightarrow> prefixed_options ''802-11-wireless.'' items options)
         in Inr (case wifi_sec n of None \<Rightarrow> options
                 | Some items \<Rightarrow> prefixed_options ''802-11-wireless-security.'' items options))
      else if type n = Some ''gsm'' then
        Inr (case gsm n of None \<Rightarrow> options
             | Some items \<Rightarrow> prefixed_options ''gsm.'' items options)
      else if type n = Some ''macvlan'' then
        (case macvlan n of
           Some (item # items) \<Rightarrow> Inr (prefixed_options ''macvlan.'' (item # items) options)
         | _ \<Rightarrow>
             if state n = ''present'' then
               Inl (NmcliModuleError
                      ''type is macvlan but all of the following are missing: macvlan'')
             else Inr options)
      else if type n = Some ''wireguard'' then
        Inr (case wireguard n of None \<Rightarrow> options
             | Some items \<Rightarrow> prefixed_options ''wireguard.'' items options)
      else if type n = Some ''vpn'' then
        Inr (case vpn n of None \<Rightarrow> options
             | Some items \<Rightarrow> fst (foldl vpn_item (options, []) items))
      else if type n = Some ''infiniband'' then
        (let options = AList.update ''infiniband.transport-mode'' (ostr (transport_mode n)) options
         in Inr (if truthy (ostr (infiniband_mac n))
                 then AList.update ''infiniband.mac-address'' (ostr (infiniband_mac n)) options
                 else options))
      else if type n = Some ''vrf'' then
        (if has_table n then Inr (AList.update ''table'' (oint (table n)) options)
         else Inl (PyError ''AttributeError''))
      else Inr options)"

text \<open>The conversion applied to one entry at the end of \<^verbatim>\<open>connection_options\<close>.\<close>

definition convert_option :: "nmcli \<Rightarrow> bool \<Rightarrow> string \<times> pyval \<Rightarrow> exit + string \<times> pyval" where
  "convert_option n detect_change entry =
     (case entry of (setting, v) \<Rightarrow>
        let setting_type = settings_type setting;
            convert_func = (if setting_type = TBool then Some (\<lambda>x. Inr (bool_to_string x))
                            else None);
            convert_func =
              (if detect_change then
                 (if setting \<in> {''vlan.id'', ''vxlan.id''} then Some (\<lambda>x. Inr (VStr (to_text x)))
                  else if setting = mtu_setting n then Some (\<lambda>x. Inr (mtu_to_string x))
                  else if setting = ''ipv6.ip6-privacy'' then Some ip6_privacy_to_num
                  else convert_func)
               else if setting_type = TList then Some list_to_string
               else convert_func)
        in case convert_func of
             None \<Rightarrow> Inr (setting, v)
           | Some f \<Rightarrow> bind_exit (f v) (\<lambda>w. Inr (setting, w)))"

definition connection_options :: "nmcli \<Rightarrow> bool \<Rightarrow> exit + dict" where
  "connection_options n detect_change =
     (let options =
            [(''connection.autoconnect'', VBool (autoconnect n)),
             (''connection.autoconnect-priority'', oint (autoconnect_priority n)),
             (''connection.autoconnect-retries'', oint (autoconnect_retries n)),
             (''connection.zone'', ostr (zone n))]
      in bind_exit
           (if (ip_conn_type n \<and> (\<not> truthy (ostr (master n)) \<or> slave_type n = Some ''vrf''))
               \<or> type n = Some ''ovs-interface''
            then ip_options n options else Inr options) (\<lambda>options.
         let options = (if truthy (ostr (mac n))
                        then AList.update (mac_setting n) (ostr (mac n)) options else options);
             options = (if mtu_conn_type n
                        then AList.update (mtu_setting n) (oint (mtu n)) options else options);
             options = (if slave_conn_type n
                        then update_all [(''connection.master'', ostr (master n)),
                                         (''connection.slave-type'', ostr (slave_type n))] options
                        else options)
         in bind_exit (type_options n options) (\<lambda>options.
            let options = (if type n = Some ''ethernet''
                           then (case sriov n of None \<Rightarrow> options
                                 | Some items \<Rightarrow> prefixed_options ''sriov.'' items options)
                           else options)
            in map_exit (convert_option n detect_change) options)))"

subsection \<open>Commands to the external tool\<close>

definition get_self :: "nmcli run" where
  "get_self s = (Inr (self s), s)"

definition set_self :: "nmcli \<Rightarrow> unit run" where
  "set_self n s = (Inr (), s\<lparr>self := n\<rparr>)"

text \<open>The commands of the methods below, as they hand them to \<^verbatim>\<open>execute_command\<close>.\<close>

definition list_cmd :: "string \<Rightarrow> cmd" where
  "list_cmd bin = Cmd [bin, ''--fields'', ''name'', ''--terse'', ''con'', ''show''] None"

definition down_cmd :: "string \<Rightarrow> string \<Rightarrow> cmd" where
  "down_cmd bin name = Cmd [bin, ''con'', ''down'', name] None"

definition up_cmd :: "string \<Rightarrow> string \<Rightarrow> cmd" where
  "up_cmd bin name = Cmd [bin, ''con'', ''up'', name] None"

definition reload_cmd :: "string \<Rightarrow> cmd" where
  "reload_cmd bin = Cmd [bin, ''con'', ''reload''] None"

definition del_cmd :: "string \<Rightarrow> string \<Rightarrow> cmd" where
  "del_cmd bin name = Cmd [bin, ''con'', ''del'', name] None"

definition list_connection_info :: "tool \<Rightarrow> string list run" where
  "list_connection_info t =
     bind get_self (\<lambda>n.
     bind (execute_command t (list_cmd (nmcli_bin n)))
       (\<lambda>(rc, out, err).
          if rc \<noteq> 0 then leave (NmcliModuleError err) else return (splitlines out)))"

definition connection_exists :: "tool \<Rightarrow> bool run" where
  "connection_exists t =
     bind (list_connection_info t) (\<lambda>names.
     bind get_self (\<lambda>n. return (conn_name n \<in> set names)))"

definition down_connection :: "tool \<Rightarrow> response run" where
  "down_connection t =
     bind get_self (\<lambda>n. execute_command t (down_cmd (nmcli_bin n) (conn_name n)))"

definition up_connection :: "tool \<Rightarrow> response run" where
  "up_connection t =
     bind get_self (\<lambda>n. execute_command t (up_cmd (nmcli_bin n) (conn_name n)))"

definition reload_connection :: "tool \<Rightarrow> response run" where
  "reload_connection t =
     bind get_self (\<lambda>n. execute_command t (reload_cmd (nmcli_bin n)))"

definition remove_connection :: "tool \<Rightarrow> response run" where
  "remove_connection t =
     bind get_self (\<lambda>n. execute_command t (del_cmd (nmcli_bin n) (conn_name n)))"

definition SECRET_OPTIONS :: "string list" where
  "SECRET_OPTIONS =
     [''802-11-wireless-security.leap-password'',
      ''802-11-wireless-security.psk'',
      ''802-11-wireless-security.wep-key0'',
      ''802-11-wireless-security.wep-key1'',
      ''802-11-wireless-security.wep-key2'',
      ''802-11-wireless-security.wep-key3'']"

text \<open>
  The loop of \<^verbatim>\<open>connection_update\<close> that builds the command: the argument vector and
  \<^verbatim>\<open>self.edit_commands\<close> are carried along; every item is passed through \<^verbatim>\<open>to_text\<close>, as
  \<^verbatim>\<open>execute_command\<close> does.
\<close>

definition option_args :: "string list \<times> string list \<Rightarrow> string \<times> pyval \<Rightarrow> string list \<times> string list" where
  "option_args acc entry =
     (case (acc, entry) of ((cmdline, edits), (key, v)) \<Rightarrow>
        if v \<noteq> VNone then
          (if key \<in> set SECRET_OPTIONS then
             (cmdline, edits @ [''set '' @ key @ '' '' @ to_text v])
           else if key = ''xmit_hash_policy'' then
             (cmdline @ [''+bond.options'', ''xmit_hash_policy='' @ to_text v], edits)
           else if key = ''fail_over_mac'' then
             (cmdline @ [''+bond.options'', ''fail_over_mac='' @ to_text v], edits)
           else (cmdline @ [key, to_text v], edits))
        else (cmdline, edits))"

text \<open>
  The options \<^verbatim>\<open>connection_update\<close> starts from: the interface name, which on creation
  defaults to the connection name, and which a VPN without \<^verbatim>\<open>ifname\<close> does not get.
\<close>

definition interface_options :: "nmcli \<Rightarrow> string \<Rightarrow> dict" where
  "interface_options n nmcli_command =
     (let ifname' = (if nmcli_command = ''create'' \<and> ifname n = None then Some (conn_name n)
                     else ifname n);
          options = [(''connection.interface-name'', ostr ifname')]
      in if type n = Some ''vpn'' \<and> ifname n = None
         then AList.delete ''connection.interface-name'' options else options)"

definition command_prefix :: "nmcli \<Rightarrow> string \<Rightarrow> string list" where
  "command_prefix n nmcli_command =
     (if nmcli_command = ''create'' then
        [nmcli_bin n, ''con'', ''add'', ''type'',
         (if tunnel_conn_type n then ''ip-tunnel'' else to_text (ostr (type n))), ''con-name'']
      else [nmcli_bin n, ''con'', ''modify'']) @ [conn_name n]"

definition connection_update :: "tool \<Rightarrow> string \<Rightarrow> response run" where
  "connection_update t nmcli_command =
     bind get_self (\<lambda>n.
       if nmcli_command \<noteq> ''create'' \<and> nmcli_command \<noteq> ''modify'' then
         leave (Fail_json None ''Invalid nmcli command.'' None)
       else
         case connection_options n False of
           Inl e \<Rightarrow> leave e
         | Inr common \<Rightarrow>
             (let options = update_all common (interface_options n nmcli_command);
                  (cmdline, edits) =
                     foldl option_args (command_prefix n nmcli_command, edit_commands n) options
              in bind (set_self (n\<lparr>edit_commands := edits\<rparr>))
                   (\<lambda>_. execute_command t (Cmd cmdline None))))"

definition edit_connection :: "tool \<Rightarrow> response run" where
  "edit_connection t =
     bind get_self (\<lambda>n.
       execute_edit_commands t (edit_commands n @ [''save'', ''quit'']) [conn_name n])"

definition create_connection_up :: "nmcli \<Rightarrow> bool" where
  "create_connection_up n =
     (if type_in n [''bond'', ''dummy'', ''ethernet'', ''infiniband'', ''wifi''] then
        mtu n \<noteq> None \<or> dns4 n \<noteq> None \<or> dns6 n \<noteq> None
      else if type n = Some ''team'' then dns4 n \<noteq> None \<or> dns6 n \<noteq> None
      else False)"

definition create_connection :: "tool \<Rightarrow> response run" where
  "create_connection t =
     bind (connection_update t ''create'') (\<lambda>status.
     bind get_self (\<lambda>n.
     bind (if fst status = 0 \<and> edit_commands n \<noteq> [] then edit_connection t else return status)
       (\<lambda>status.
          if create_connection_up n then up_connection t else return status)))"

definition modify_connection :: "tool \<Rightarrow> response run" where
  "modify_connection t =
     bind (connection_update t ''modify'') (\<lambda>status.
     bind get_self (\<lambda>n.
       if fst status = 0 \<and> edit_commands n \<noteq> [] then edit_connection t else return status))"

subsection \<open>Supported sub-options\<close>

definition get_supported_properties :: "tool \<Rightarrow> string \<Rightarrow> string list run" where
  "get_supported_properties t setting =
     bind get_self (\<lambda>n.
       let commands =
             (if setting = ''802-11-wireless-security''
              then [''set '' @ setting @ ''.psk FAKEVALUE''] else []) @
             [''print '' @ setting, ''quit'', ''yes'']
       in bind (execute_edit_commands t commands [''type'', to_text (ostr (type n))])
            (\<lambda>(rc, out, err).
               if rc \<noteq> 0 then leave (NmcliModuleError err)
               else return
                 (map (\<lambda>line. remove_all (setting @ ''.'') 0 (strip (split1 CHR '':'' line ! 0)))
                    (filter (\<lambda>line. startswith line (setting @ ''.'')) (splitlines out)))))"

definition check_for_unsupported_properties :: "tool \<Rightarrow> string \<Rightarrow> string list run" where
  "check_for_unsupported_properties t setting =
     (let setting_key = (if setting = ''802-11-wireless'' then ''wifi''
                         else if setting = ''802-11-wireless-security'' then ''wifi_sec''
                         else setting)
      in bind (get_supported_properties t setting) (\<lambda>supported_properties.
         bind get_self (\<lambda>n.
           case (if setting_key = ''wifi'' then wifi n
                 else if setting_key = ''wifi_sec'' then wifi_sec n else None) of
             None \<Rightarrow> leave (PyError ''AttributeError'')
           | Some items \<Rightarrow>
               (let unsupported_properties =
                      filter (\<lambda>property. property \<notin> set supported_properties) (map fst items);
                    msg = ''Invalid or unsupported option(s): '' @ [CHR 0x22] @
                          join ([CHR 0x22] @ '', '' @ [CHR 0x22])
                            (map (\<lambda>property. setting_key @ ''.'' @ property)
                               unsupported_properties) @ [CHR 0x22]
                in if unsupported_properties \<noteq> [] \<and> \<not> ignore_unsupported_suboptions n
                   then leave (Fail_json None msg None)
                   else return unsupported_properties))))"

subsection \<open>The change detector\<close>

text \<open>
  The test \<^verbatim>\<open>value not in (0, []) and not value\<close> that skips an option: \<^verbatim>\<open>False == 0\<close> holds
  in Python, so only \<^verbatim>\<open>None\<close> and the empty string are skipped.
\<close>

definition skipped :: "pyval \<Rightarrow> bool" where
  "skipped v = (v \<notin> {VInt 0, VBool False, VList []} \<and> \<not> truthy v)"

text \<open>
  \<^verbatim>\<open>re.match('0x([0-9A-Fa-f]+)', current_value)\<close> followed by \<^verbatim>\<open>str(int(group, 16))\<close>.
\<close>

definition wake_on_wlan_value :: "string \<Rightarrow> string" where
  "wake_on_wlan_value current_value =
     (if take 2 current_value = ''0x'' \<and> takeWhile is_hexdigit (drop 2 current_value) \<noteq> []
      then str_of_int (int (int_of_hex (takeWhile is_hexdigit (drop 2 current_value))))
      else current_value)"

text \<open>
  \<^verbatim>\<open>re.sub(r'\s*=\s*', '=', part, count=1)\<close>: the leftmost match ends the longest run of
  white space before the first equals sign and takes the white space after it.
\<close>

definition normalize_equals :: "string \<Rightarrow> string" where
  "normalize_equals part =
     (if CHR ''='' \<in> set part
      then rstrip (takeWhile (\<lambda>c. c \<noteq> CHR ''='') part) @ ''='' @
           lstrip (tl (dropWhile (\<lambda>c. c \<noteq> CHR ''='') part))
      else part)"

text \<open>
  The normalisation of the observed and the desired value of one key that is present in
  the observed state; \<^verbatim>\<open>self.mtu\<close> may be set to \<^verbatim>\<open>0\<close> on the way. A method called on a value
  that has none raises.
\<close>

definition normalize_wake_on_wlan :: "string \<Rightarrow> pyval \<Rightarrow> exit + pyval" where
  "normalize_wake_on_wlan key current_value =
     (if key = ''802-11-wireless.wake-on-wlan'' \<and> current_value \<noteq> VNone then
        (case current_value of
           VStr s \<Rightarrow> Inr (VStr (wake_on_wlan_value s))
         | _ \<Rightarrow> Inl (PyError ''TypeError''))
      else Inr current_value)"

definition normalize_routes :: "string \<Rightarrow> pyval \<Rightarrow> exit + pyval" where
  "normalize_routes key current_value =
     (if key \<in> {''ipv4.routes'', ''ipv6.routes''} \<and> current_value \<noteq> VNone
      then get_route_params current_value else Inr current_value)"

definition normalize_mac :: "nmcli \<Rightarrow> string \<Rightarrow> pyval \<times> pyval \<Rightarrow> exit + pyval \<times> pyval" where
  "normalize_mac n key cv =
     (case cv of (current_value, v) \<Rightarrow>
        if key = mac_setting n then
          (case v of
             VStr s \<Rightarrow>
               (if truthy current_value then
                  (case current_value of
                     VStr c \<Rightarrow> Inr (VStr (upper c), VStr (upper s))
                   | _ \<Rightarrow> Inl (PyError ''AttributeError''))
                else Inr (current_value, VStr (upper s)))
           | _ \<Rightarrow> Inl (PyError ''AttributeError''))
        else Inr (current_value, v))"

definition normalize_apn :: "string \<Rightarrow> pyval \<Rightarrow> exit + pyval" where
  "normalize_apn key current_value =
     (if key = ''gsm.apn'' \<and> truthy current_value then
        (case current_value of
           VStr c \<Rightarrow> Inr (VStr (strip_char (CHR 0x22) c))
         | _ \<Rightarrow> Inl (PyError ''AttributeError''))
      else Inr current_value)"

definition normalize_vpn_data :: "string \<Rightarrow> pyval \<times> pyval \<Rightarrow> exit + pyval \<times> pyval" where
  "normalize_vpn_data key cv =
     (case cv of (current_value, v) \<Rightarrow>
        if key = ''vpn.data'' then
          bind_exit
            (if truthy current_value then
               (case current_value of
                  VStr c \<Rightarrow>
                    Inr (VList (sort (map (\<lambda>part. normalize_equals (strip part))
                                        (split_all CHR '','' c))))
                | _ \<Rightarrow> Inl (PyError ''AttributeError''))
             else Inr current_value) (\<lambda>current_value.
          (case v of
             VStr s \<Rightarrow> Inr (current_value, VList (sort (map strip (split_all CHR '','' s))))
           | _ \<Rightarrow> Inl (PyError ''AttributeError'')))
        else Inr (current_value, v))"

definition normalize_present :: "nmcli \<Rightarrow> string \<Rightarrow> pyval \<Rightarrow> pyval \<Rightarrow> exit + (pyval \<times> pyval) \<times> nmcli" where
  "normalize_present n key current_value v =
     bind_exit (normalize_wake_on_wlan key current_value) (\<lambda>current_value.
     bind_exit (normalize_routes key current_value) (\<lambda>current_value.
     bind_exit (normalize_mac n key (current_value, v)) (\<lambda>(current_value, v).
     bind_exit (normalize_apn key current_value) (\<lambda>current_value.
       let n = (if key = mtu_setting n \<and> mtu n = None then n\<lparr>mtu := Some 0\<rparr> else n)
       in bind_exit (normalize_vpn_data key (current_value, v)) (\<lambda>cv. Inr (cv, n))))))"

fun is_list :: "pyval \<Rightarrow> bool" where
  "is_list (VList l) = True"
| "is_list v = False"

fun list_of :: "pyval \<Rightarrow> string list" where
  "list_of (VList l) = l"
| "list_of v = []"

definition ordered_settings :: "string list" where
  "ordered_settings =
     [''ipv4.addresses'', ''ipv6.addresses'', ''ipv4.dns'', ''ipv6.dns'', ''ipv4.dns-search'',
      ''ipv6.dns-search'']"

text \<open>
  The comparison of one key after normalisation: whether it differs, and the desired
  value as the diff records it.
\<close>

definition compare_values :: "nmcli \<Rightarrow> string \<Rightarrow> pyval \<Rightarrow> pyval \<Rightarrow> bool \<times> pyval" where
  "compare_values n key current_value v =
     (if is_list current_value \<and> is_list v then
        (if key \<in> set ordered_settings then (current_value \<noteq> v, v)
         else (sort (list_of current_value) \<noteq> sort (list_of v), v))
      else if key = mtu_setting n \<and> type n = Some ''dummy'' \<and> current_value = VNone \<and>
              v = VStr ''auto'' \<and> mtu n = None then (False, VNone)
      else (current_value \<noteq> VStr (to_text v), VStr (to_text v)))"

text \<open>
  The body of the loop of \<^verbatim>\<open>_compare_conn_params\<close>; the state is \<^verbatim>\<open>changed\<close>, the two
  halves of the diff and the object (for \<^verbatim>\<open>self.mtu\<close>).
\<close>

definition compare_option ::
  "(string \<rightharpoonup> pyval) \<Rightarrow> bool \<times> dict \<times> dict \<times> nmcli \<Rightarrow> string \<times> pyval \<Rightarrow>
     exit + bool \<times> dict \<times> dict \<times> nmcli" where
  "compare_option conn_info acc entry =
     (case (acc, entry) of ((changed, diff_before, diff_after, n), (key, v)) \<Rightarrow>
        if skipped v then Inr (changed, diff_before, diff_after, n)
        else
          bind_exit
            (case conn_info key of
               Some current_value \<Rightarrow> normalize_present n key current_value v
             | None \<Rightarrow> Inr ((VNone, v), n)) (\<lambda>((current_value, v), n).
          (case compare_values n key current_value v of (differs, v) \<Rightarrow>
             Inr (changed \<or> differs,
                  AList.update key current_value diff_before,
                  AList.update key v diff_after, n))))"

fun fold_exit :: "('s \<Rightarrow> 'a \<Rightarrow> exit + 's) \<Rightarrow> 's \<Rightarrow> 'a list \<Rightarrow> exit + 's" where
  "fold_exit f s [] = Inr s"
| "fold_exit f s (x # xs) = (case f s x of Inl e \<Rightarrow> Inl e | Inr s' \<Rightarrow> fold_exit f s' xs)"

definition compare_conn_params ::
  "nmcli \<Rightarrow> (string \<rightharpoonup> pyval) \<Rightarrow> dict \<Rightarrow> exit + (bool \<times> diff) \<times> nmcli" where
  "compare_conn_params n conn_info options =
     bind_exit (fold_exit (compare_option conn_info) (False, [], [], n) options)
       (\<lambda>(changed, diff_before, diff_after, n). Inr ((changed, (diff_before, diff_after)), n))"

text \<open>
  \<^verbatim>\<open>is_connection_changed\<close>. The observed \<^verbatim>\<open>connection.type\<close> is text or \<^verbatim>\<open>None\<close>: the key
  is not of list type, so \<^verbatim>\<open>show_connection\<close> stores no list under it.
\<close>

definition is_connection_changed :: "tool \<Rightarrow> (bool \<times> diff) run" where
  "is_connection_changed t =
     bind get_self (\<lambda>n.
       let options = [(''connection.interface-name'', ostr (ifname n))];
           options = (if type n = Some ''vpn'' \<and> ifname n = None
                      then AList.delete ''connection.interface-name'' options else options)
       in bind (if \<not> truthy (ostr (type n)) then
                  bind (show_connection t) (\<lambda>conn_info.
                    case conn_info ''connection.type'' of
                      Some (VStr current_con_type) \<Rightarrow>
                        if current_con_type \<noteq> [] then
                          set_self (n\<lparr>type := Some (if current_con_type = ''802-11-wireless''
                                                    then ''wifi'' else current_con_type)\<rparr>)
                        else return ()
                    | _ \<Rightarrow> return ())
                else return ()) (\<lambda>_.
          bind get_self (\<lambda>n.
            case connection_options n True of
              Inl e \<Rightarrow> leave e
            | Inr common \<Rightarrow>
                bind (show_connection t) (\<lambda>conn_info.
                  case compare_conn_params n conn_info (update_all common options) of
                    Inl e \<Rightarrow> leave e
                  | Inr (r, n) \<Rightarrow> bind (set_self n) (\<lambda>_. return r)))))"

subsection \<open>Construction of the object\<close>

definition ip_method :: "string option \<Rightarrow> string option \<Rightarrow> string list option \<Rightarrow> string option" where
  "ip_method method tp ips =
     (if truthy (ostr method) then method
      else if tp \<in> {Some ''dummy'', Some ''macvlan'', Some ''wireguard''} \<and> \<not> truthy (olist ips)
        then Some ''disabled''
      else if truthy (olist ips) then Some ''manual''
      else None)"

text \<open>
  \<^verbatim>\<open>Nmcli.__init__\<close>: the attributes it assigns, where \<open>bin\<close> is the path that
  \<^verbatim>\<open>get_bin_path('nmcli', True)\<close> found, and \<^verbatim>\<open>extra_options_validation\<close>, which ends it.
\<close>

definition new_nmcli :: "string \<Rightarrow> module_params \<Rightarrow> nmcli" where
  "new_nmcli bin p =
     module_params.extend p
       (nmcli.fields bin
          (ip_method (method4 p) (type p) (ip4 p))
          (ip_method (method6 p) (type p) (ip6 p))
          (type p = Some ''vrf'') [])"

definition extra_options_validation :: "nmcli \<Rightarrow> exit option" where
  "extra_options_validation n =
     (if type n \<notin> {Some ''bridge-slave'', Some ''team-slave'', Some ''bond-slave''} \<and>
         master n = None \<and> slave_type n \<noteq> None
      then Some (Fail_json None
                   (quoted ''master'' @ '' option is required when '' @ quoted ''slave_type'' @
                    '' is specified.'') None)
      else None)"

definition Nmcli_init :: "string \<Rightarrow> module_params \<Rightarrow> exit + nmcli" where
  "Nmcli_init bin p =
     (case extra_options_validation (new_nmcli bin p) of
        Some e \<Rightarrow> Inl e
      | None \<Rightarrow> Inr (new_nmcli bin p))"

subsection \<open>The reconciliation driver\<close>

text \<open>The checks of \<^verbatim>\<open>main\<close> for the team types, made before anything is run.\<close>

definition team_checks :: "nmcli \<Rightarrow> exit option" where
  "team_checks n =
     (if type n = Some ''team'' \<and> truthy (ostr (runner_hwaddr_policy n)) \<and>
         runner n \<noteq> ''activebackup'' then
        Some (Fail_json None ''Runner-hwaddr-policy is only allowed for runner activebackup'' None)
      else if type n = Some ''team'' \<and> runner_fast_rate n \<noteq> None \<and> runner n \<noteq> ''lacp'' then
        Some (Fail_json None ''runner-fast-rate is only allowed for runner lacp'' None)
      else if (type n = Some ''team-slave'' \<or> slave_type n = Some ''team'') \<and> master n = None then
        Some (Fail_json None
                (''Please specify a name for the master when type is '' @ to_text (ostr (type n)))
                None)
      else if (type n = Some ''team-slave'' \<or> slave_type n = Some ''team'') \<and> ifname n = None then
        Some (Fail_json None
                (''Please specify an interface name for the connection when type is '' @
                 to_text (ostr (type n))) None)
      else None)"

text \<open>
  The checks for the type \<^verbatim>\<open>wifi\<close>: \<^verbatim>\<open>wifi.ssid\<close> is dropped, the sub-options are checked
  against what the tool supports, and the unsupported ones are deleted when they are to be
  ignored.
\<close>

definition delete_all :: "string list \<Rightarrow> dict \<Rightarrow> dict" where
  "delete_all ks d = foldl (\<lambda>d k. AList.delete k d) d ks"

definition wifi_checks :: "tool \<Rightarrow> unit run" where
  "wifi_checks t =
     bind get_self (\<lambda>n.
       if type n = Some ''wifi'' then
         bind (case wifi n of
                 Some (item # items) \<Rightarrow>
                   bind (set_self (n\<lparr>wifi := Some (AList.delete ''ssid'' (item # items))\<rparr>)) (\<lambda>_.
                   bind (check_for_unsupported_properties t ''802-11-wireless'') (\<lambda>u.
                     return (Some u)))
               | _ \<Rightarrow> return None) (\<lambda>unsupported_wifi.
         bind get_self (\<lambda>n.
         bind (case wifi_sec n of
                 Some (item # items) \<Rightarrow>
                   bind (check_for_unsupported_properties t ''802-11-wireless-security'') (\<lambda>u.
                     return (Some u))
               | _ \<Rightarrow> return None) (\<lambda>unsupported_wifi_sec.
         bind get_self (\<lambda>n.
           if ignore_unsupported_suboptions n then
             set_self (n\<lparr>wifi := (case unsupported_wifi of None \<Rightarrow> wifi n
                                  | Some u \<Rightarrow> map_option (delete_all u) (wifi n)),
                         wifi_sec := (case unsupported_wifi_sec of None \<Rightarrow> wifi_sec n
                                      | Some u \<Rightarrow> map_option (delete_all u) (wifi_sec n))\<rparr>)
           else return ()))))
       else return ())"

text \<open>
  The local variables \<^verbatim>\<open>rc\<close>, \<^verbatim>\<open>out\<close>, \<^verbatim>\<open>err\<close> and \<^verbatim>\<open>result\<close> of \<^verbatim>\<open>main\<close>.
\<close>

type_synonym locals = "int option \<times> string \<times> string \<times> result"

definition only_changed :: "bool \<Rightarrow> result" where
  "only_changed c =
     \<lparr>res_changed = c, res_conn_name = None, res_state = None, res_diff = None,
      res_Exists = None, res_Connection = None, res_stdout = None, res_stderr = None\<rparr>"

definition no_connection_named :: "nmcli \<Rightarrow> string" where
  "no_connection_named n = ''No Connection named '' @ conn_name n @ '' exists''"

definition state_absent :: "tool \<Rightarrow> ansible_module \<Rightarrow> locals \<Rightarrow> locals run" where
  "state_absent t m loc =
     bind (connection_exists t) (\<lambda>exists.
       if exists then
         (if check_mode m then leave (Exit_json (only_changed True))
          else
            bind (down_connection t) (\<lambda>_.
            bind (remove_connection t) (\<lambda>(rc, out, err).
            bind get_self (\<lambda>n.
              if rc \<noteq> 0 then leave (Fail_json (Some (no_connection_named n)) err (Some rc))
              else return (Some rc, out, err, snd (snd (snd loc)))))))
       else return loc)"

definition state_present :: "tool \<Rightarrow> ansible_module \<Rightarrow> locals \<Rightarrow> locals run" where
  "state_present t m loc =
     bind (connection_exists t) (\<lambda>exists.
     bind (if exists then
             bind (is_connection_changed t) (\<lambda>(changed, diff).
               case loc of (rc, out, err, result) \<Rightarrow>
                 let result = (if diff_mode m then result\<lparr>res_diff := Some diff\<rparr> else result)
                 in if changed then
                      (let result = result\<lparr>res_Exists :=
                              Some ''Connections do exist so we are modifying them''\<rparr>
                       in if check_mode m then leave (Exit_json (result\<lparr>res_changed := True\<rparr>))
                          else
                            bind (modify_connection t) (\<lambda>(rc, out, err).
                            bind get_self (\<lambda>n.
                              if conn_reload n then
                                bind (reload_connection t) (\<lambda>(rc, out, err).
                                  return (Some rc, out, err, result))
                              else return (Some rc, out, err, result))))
                    else
                      (let result = result\<lparr>res_Exists :=
                              Some ''Connections already exist and no changes made''\<rparr>
                       in if check_mode m then leave (Exit_json (result\<lparr>res_changed := False\<rparr>))
                          else return (rc, out, err, result)))
           else return loc) (\<lambda>loc.
     bind (connection_exists t) (\<lambda>exists.
     bind get_self (\<lambda>n.
     bind (if \<not> exists then
             (case loc of (rc, out, err, result) \<Rightarrow>
                let result = result\<lparr>res_Connection :=
                       Some (''Connection '' @ conn_name n @ '' of Type '' @
                             to_text (ostr (type n)) @ '' is being added'')\<rparr>
                in if check_mode m then leave (Exit_json (result\<lparr>res_changed := True\<rparr>))
                   else bind (create_connection t) (\<lambda>(rc, out, err).
                          return (Some rc, out, err, result)))
           else return loc) (\<lambda>loc.
       case loc of (rc, out, err, result) \<Rightarrow>
         if rc \<noteq> None \<and> rc \<noteq> Some 0
         then leave (Fail_json (Some (conn_name n)) err rc)
         else return loc)))))"

definition state_up_down :: "tool \<Rightarrow> ansible_module \<Rightarrow> response run \<Rightarrow> locals \<Rightarrow> locals run" where
  "state_up_down t m action loc =
     bind (connection_exists t) (\<lambda>exists.
       if exists then
         (if check_mode m then leave (Exit_json (only_changed True))
          else
            bind get_self (\<lambda>n.
            bind (if conn_reload n then bind (reload_connection t) (\<lambda>_. return ())
                  else return ()) (\<lambda>_.
            bind action (\<lambda>(rc, out, err).
              if rc \<noteq> 0 then leave (Fail_json (Some (no_connection_named n)) err (Some rc))
              else return (Some rc, out, err, snd (snd (snd loc)))))))
       else return loc)"

text \<open>The \<^verbatim>\<open>try\<close> block, and the \<^verbatim>\<open>except NmcliModuleError\<close> around it.\<close>

definition try_block :: "tool \<Rightarrow> ansible_module \<Rightarrow> locals \<Rightarrow> locals run" where
  "try_block t m loc =
     bind get_self (\<lambda>n.
       if state n = ''absent'' then state_absent t m loc
       else if state n = ''present'' then state_present t m loc
       else if state n = ''up'' then state_up_down t m (up_connection t) loc
       else if state n = ''down'' then state_up_down t m (down_connection t) loc
       else return loc)"

definition except_NmcliModuleError :: "'a run \<Rightarrow> 'a run" where
  "except_NmcliModuleError body s =
     (case body s of
        (Inl (NmcliModuleError e), s') \<Rightarrow> (Inl (Fail_json (Some (conn_name (self s'))) e None), s')
      | r \<Rightarrow> r)"

definition main_run :: "tool \<Rightarrow> ansible_module \<Rightarrow> result run" where
  "main_run t m =
     bind get_self (\<lambda>n.
       case team_checks n of
         Some e \<Rightarrow> leave e
       | None \<Rightarrow>
           bind (wifi_checks t) (\<lambda>_.
           bind (except_NmcliModuleError
                   (try_block t m
                      (None, [], [],
                       (only_changed False)\<lparr>res_conn_name := Some (conn_name n),
                                            res_state := Some (state n)\<rparr>)))
             (\<lambda>(rc, out, err, result).
                return (result\<lparr>res_changed := (rc \<noteq> None),
                               res_stdout := (if out \<noteq> [] then Some out else None),
                               res_stderr := (if err \<noteq> [] then Some err else None)\<rparr>))))"

text \<open>
  \<^verbatim>\<open>main\<close>: how the run ends, and the calls made to the tool, in order.
\<close>

definition main :: "tool \<Rightarrow> string \<Rightarrow> ansible_module \<Rightarrow> exit \<times> cmd list" where
  "main t bin m =
     (case Nmcli_init bin (params m) of
        Inl e \<Rightarrow> (e, [])
      | Inr n \<Rightarrow>
          (case main_run t m \<lparr>self = n, trace = []\<rparr> of
             (Inl e, s) \<Rightarrow> (e, trace s)
           | (Inr r, s) \<Rightarrow> (Exit_json r, trace s)))"

subsection \<open>The defaults of the argument specification\<close>

text \<open>
  \<^verbatim>\<open>module.params\<close> of an invocation that gives only the two required parameters: every
  other parameter has the default of \<^verbatim>\<open>argument_spec\<close>, or \<^verbatim>\<open>None\<close> where it declares none.
\<close>

definition default_params :: "string \<Rightarrow> string \<Rightarrow> module_params" where
  "default_params st name =
     \<lparr>ignore_unsupported_suboptions = False, autoconnect = True,
      autoconnect_priority = None, autoconnect_retries = None,
      state = st, conn_name = name, conn_reload = False,
      master = None, slave_type = None, ifname = None, type = None,
      ip4 = None, gw4 = None, gw4_ignore_auto = False,
      routes4 = None, routes4_extended = None, route_metric4 = None, routing_rules4 = None,
      never_default4 = False, dns4 = None, dns4_search = None, dns4_options = None,
      dns4_ignore_auto = False, method4 = None, may_fail4 = True, dhcp_client_id = None,
      ip6 = None, gw6 = None, gw6_ignore_auto = False,
      dns6 = None, dns6_search = None, dns6_options = None, dns6_ignore_auto = False,
      routes6 = None, routes6_extended = None, route_metric6 = None,
      method6 = None, ip_privacy6 = None, addr_gen_mode6 = None,
      mode = ''balance-rr'', miimon = None, downdelay = None, updelay = None,
      xmit_hash_policy = None, fail_over_mac = None, arp_interval = None,
      arp_ip_target = None, primary = None,
      mtu = None, mac = None, zone = None,
      stp = True, priority = 128, slavepriority = 32, forwarddelay = 15, hellotime = 2,
      maxage = 20, ageingtime = 300, hairpin = False, path_cost = 100,
      runner = ''roundrobin'', runner_hwaddr_policy = None, runner_fast_rate = None,
      vlanid = None, vlandev = None, flags = None, ingress = None, egress = None,
      vxlan_id = None, vxlan_local = None, vxlan_remote = None,
      ip_tunnel_dev = None, ip_tunnel_local = None, ip_tunnel_remote = None,
      ip_tunnel_input_key = None, ip_tunnel_output_key = None,
      ssid = None, wifi = None, wifi_sec = None, gsm = None, macvlan = None,
      wireguard = None, vpn = None, sriov = None, table = None,
      transport_mode = None, infiniband_mac = None\<rparr>"

subsection \<open>The keys a line of the output writes\<close>



subsection \<open>What an option adds to the command line\<close>

text \<open>
  The flag and the value that the loop of \<^verbatim>\<open>connection_update\<close> appends to the command for
  one option: nothing for \<^verbatim>\<open>None\<close> and for a secret, \<^verbatim>\<open>+bond.options\<close> for the two bond
  aliases, the key and the value otherwise.
\<close>

definition emitted :: "string \<times> pyval \<Rightarrow> (string \<times> string) list" where
  "emitted entry =
     (case entry of (key, v) \<Rightarrow>
        if v = VNone \<or> key \<in> set SECRET_OPTIONS then []
        else if key = ''xmit_hash_policy'' then [(''+bond.options'', ''xmit_hash_policy='' @ to_text v)]
        else if key = ''fail_over_mac'' then [(''+bond.options'', ''fail_over_mac='' @ to_text v)]
        else [(key, to_text v)])"

definition no_ifname :: "dict \<Rightarrow> bool" where
  "no_ifname d = (''connection.interface-name'' \<notin> fst ` set d)"

subsection \<open>Commands that change the configuration\<close>

text \<open>
  The calls that act on connections: \<^verbatim>\<open>con add\<close>, \<^verbatim>\<open>modify\<close>, \<^verbatim>\<open>up\<close>, \<^verbatim>\<open>down\<close>,
  \<^verbatim>\<open>reload\<close>, \<^verbatim>\<open>del\<close>, and the edit session \<^verbatim>\<open>con edit <name>\<close>, which saves. The
  listing, \<^verbatim>\<open>con show <name>\<close> and the probe \<^verbatim>\<open>con edit type <type>\<close>, which quits without
  saving, are queries.
\<close>

definition is_mutating :: "cmd \<Rightarrow> bool" where
  "is_mutating c =
     (case argv c of
        bin # con # verb # rest \<Rightarrow>
          con = ''con'' \<and>
          (verb \<in> {''add'', ''modify'', ''up'', ''down'', ''reload'', ''del''} \<or>
           (verb = ''edit'' \<and> length rest = 1))
      | _ \<Rightarrow> False)"

section \<open>Properties\<close>

subsection \<open>CIDR suffix defaulting\<close>

text \<open>
  C6. For every list of desired IP addresses the emitted list has the same length, and at
  every position an IPv4 address containing no \<^verbatim>\<open>'/'\<close> is emitted with \<^verbatim>\<open>/32\<close> appended, an
  IPv6 address containing no \<^verbatim>\<open>'/'\<close> is emitted with \<^verbatim>\<open>/128\<close> appended, and an address that
  already contains \<^verbatim>\<open>'/'\<close> is emitted unchanged.
\<close>

theorem enforce_cidr_notation_suffix:
  "\<exists>out4 out6.
     enforce_ipv4_cidr_notation (Some addrs) = Some out4 \<and>
     enforce_ipv6_cidr_notation (Some addrs) = Some out6 \<and>
     length out4 = length addrs \<and> length out6 = length addrs \<and>
     (\<forall>i < length addrs.
        (CHR ''/'' \<notin> set (addrs ! i) \<longrightarrow>
           out4 ! i = addrs ! i @ ''/32'' \<and> out6 ! i = addrs ! i @ ''/128'') \<and>
        (CHR ''/'' \<in> set (addrs ! i) \<longrightarrow>
           out4 ! i = addrs ! i \<and> out6 ! i = addrs ! i))"
  by simp

theorem enforce_cidr_notation_suffix_witness:
  "enforce_ipv4_cidr_notation (Some [''192.0.2.1'', ''10.0.0.1/8'']) =
     Some [''192.0.2.1/32'', ''10.0.0.1/8''] \<and>
   enforce_ipv6_cidr_notation (Some [''2001:db8::1'', ''fe80::1/64'']) =
     Some [''2001:db8::1/128'', ''fe80::1/64'']"
  using enforce_cidr_notation_suffix [of "[''192.0.2.1'', ''10.0.0.1/8'']"]
    enforce_cidr_notation_suffix [of "[''2001:db8::1'', ''fe80::1/64'']"]
  by simp


subsection \<open>The empty marker in the observed state\<close>























subsection \<open>The loop of the change detector\<close>

lemma fold_exit_append:
  "fold_exit f s (xs @ ys) = (case fold_exit f s xs of Inl e \<Rightarrow> Inl e | Inr s' \<Rightarrow> fold_exit f s' ys)"
  by (induction xs arbitrary: s) (auto split: sum.splits)

lemma normalize_present_self:
  assumes "normalize_present n key cur v = Inr (r, n')"
  shows "n' = n \<or> n' = n\<lparr>mtu := Some 0\<rparr>"
  using assms unfolding normalize_present_def bind_exit_def Let_def
  by (auto split: sum.splits prod.splits if_splits)

lemma compare_option_diff_independent:
  assumes "compare_option conn_info (c, db, da, n) e = Inr (c', db', da', n')"
  shows "\<exists>db2' da2'. compare_option conn_info (c, db2, da2, n) e = Inr (c', db2', da2', n')"
  using assms unfolding compare_option_def bind_exit_def
  by (auto split: sum.splits prod.splits option.splits if_splits)

lemma compare_option_type:
  assumes "compare_option conn_info (c, db, da, n) e = Inr (c', db', da', n')"
  shows "type n' = type n"
  using assms unfolding compare_option_def bind_exit_def
  by (auto split: sum.splits prod.splits option.splits if_splits dest: normalize_present_self)



lemma fold_compare_diff_independent:
  "fold_exit (compare_option conn_info) (c, db, da, n) es = Inr (c', db', da', n') \<Longrightarrow>
   \<exists>db2' da2'. fold_exit (compare_option conn_info) (c, db2, da2, n) es = Inr (c', db2', da2', n')"
proof (induction es arbitrary: c db da n db2 da2)
  case Nil
  then show ?case by simp
next
  case (Cons e es)
  from Cons.prems obtain c1 db1 da1 n1
    where step: "compare_option conn_info (c, db, da, n) e = Inr (c1, db1, da1, n1)"
      and rest: "fold_exit (compare_option conn_info) (c1, db1, da1, n1) es = Inr (c', db', da', n')"
    by (auto split: sum.splits)
  from compare_option_diff_independent [OF step, of db2 da2]
  obtain db3 da3 where "compare_option conn_info (c, db2, da2, n) e = Inr (c1, db3, da3, n1)"
    by blast
  moreover from Cons.IH [OF rest, of db3 da3]
  obtain db4 da4 where "fold_exit (compare_option conn_info) (c1, db3, da3, n1) es = Inr (c', db4, da4, n')"
    by blast
  ultimately show ?case by simp
qed

lemma fold_compare_type:
  "fold_exit (compare_option conn_info) (c, db, da, n) es = Inr (c', db', da', n') \<Longrightarrow>
   type n' = type n"
proof (induction es arbitrary: c db da n)
  case Nil
  then show ?case by simp
next
  case (Cons e es)
  from Cons.prems obtain c1 db1 da1 n1
    where step: "compare_option conn_info (c, db, da, n) e = Inr (c1, db1, da1, n1)"
      and rest: "fold_exit (compare_option conn_info) (c1, db1, da1, n1) es = Inr (c', db', da', n')"
    by (auto split: sum.splits)
  from Cons.IH [OF rest] compare_option_type [OF step] show ?case by simp
qed


text \<open>An entry whose step leaves \<open>changed\<close> and the object alone can be taken out or put in.\<close>

lemma fold_compare_neutral_entry:
  assumes neutral: "\<And>c db da n1. type n1 = type n \<Longrightarrow>
            \<exists>db' da'. compare_option conn_info (c, db, da, n1) e = Inr (c, db', da', n1)"
  shows "(\<exists>d. compare_conn_params n conn_info (pre @ e # post) = Inr ((c, d), n')) \<longleftrightarrow>
         (\<exists>d. compare_conn_params n conn_info (pre @ post) = Inr ((c, d), n'))"
proof -
  let ?f = "compare_option conn_info"
  have with_entry: "fold_exit ?f (False, [], [], n) (pre @ e # post) =
      (case fold_exit ?f (False, [], [], n) pre of Inl x \<Rightarrow> Inl x
       | Inr s1 \<Rightarrow> (case ?f s1 e of Inl x \<Rightarrow> Inl x | Inr s2 \<Rightarrow> fold_exit ?f s2 post))"
    by (simp add: fold_exit_append split: sum.splits)
  have without: "fold_exit ?f (False, [], [], n) (pre @ post) =
      (case fold_exit ?f (False, [], [], n) pre of Inl x \<Rightarrow> Inl x
       | Inr s1 \<Rightarrow> fold_exit ?f s1 post)"
    by (simp add: fold_exit_append)
  show ?thesis
  proof (cases "fold_exit ?f (False, [], [], n) pre")
    case (Inl x)
    then show ?thesis by (simp add: compare_conn_params_def bind_exit_def with_entry without)
  next
    case (Inr s1)
    obtain c1 db1 da1 n1 where s1: "s1 = (c1, db1, da1, n1)" by (cases s1) auto
    from Inr s1 fold_compare_type have "type n1 = type n" by blast
    from neutral [OF this, of c1 db1 da1]
    obtain db2 da2 where step: "?f (c1, db1, da1, n1) e = Inr (c1, db2, da2, n1)" by blast
    have l: "(\<exists>d. compare_conn_params n conn_info (pre @ e # post) = Inr ((c, d), n')) \<longleftrightarrow>
             (\<exists>db da. fold_exit ?f (c1, db2, da2, n1) post = Inr (c, db, da, n'))"
      using Inr s1 step
      by (auto simp add: compare_conn_params_def bind_exit_def with_entry split: sum.splits)
    have r: "(\<exists>d. compare_conn_params n conn_info (pre @ post) = Inr ((c, d), n')) \<longleftrightarrow>
             (\<exists>db da. fold_exit ?f (c1, db1, da1, n1) post = Inr (c, db, da, n'))"
      using Inr s1
      by (auto simp add: compare_conn_params_def bind_exit_def without split: sum.splits)
    have "(\<exists>db da. fold_exit ?f (c1, db2, da2, n1) post = Inr (c, db, da, n')) \<longleftrightarrow>
          (\<exists>db da. fold_exit ?f (c1, db1, da1, n1) post = Inr (c, db, da, n'))"
      using fold_compare_diff_independent by blast
    with l r show ?thesis by simp
  qed
qed

subsection \<open>MAC addresses are compared without regard to case\<close>

lemma mac_not_mtu: "mac_setting n \<noteq> mtu_setting n"
  by (simp add: mac_setting_def mtu_setting_def)

lemma mac_setting_cases:
  "mac_setting n = ''bridge.mac-address'' \<or> mac_setting n = ''802-3-ethernet.cloned-mac-address''"
  by (simp add: mac_setting_def)

lemma mac_setting_type: "type n1 = type n \<Longrightarrow> mac_setting n1 = mac_setting n"
  by (simp add: mac_setting_def)

lemma normalize_present_mac:
  assumes "des \<noteq> []" and "obs \<noteq> []"
  shows "normalize_present n (mac_setting n) (VStr obs) (VStr des) =
           Inr ((VStr (upper obs), VStr (upper des)), n)"
proof -
  have k: "mac_setting n \<noteq> ''802-11-wireless.wake-on-wlan''" "mac_setting n \<noteq> ''ipv4.routes''"
    "mac_setting n \<noteq> ''ipv6.routes''" "mac_setting n \<noteq> ''gsm.apn''" "mac_setting n \<noteq> ''vpn.data''"
    using mac_setting_cases [of n] by auto
  show ?thesis
    unfolding normalize_present_def normalize_wake_on_wlan_def normalize_routes_def
      normalize_mac_def normalize_apn_def normalize_vpn_data_def bind_exit_def
    using assms k mac_not_mtu [of n] by simp
qed

lemma upper_char_not_Nil: "upper_char c \<noteq> []"
  by (simp add: upper_char_def)

lemma upper_Nil: "upper s = [] \<longleftrightarrow> s = []"
  by (cases s) (simp_all add: upper_def upper_char_not_Nil)

lemma compare_values_text:
  "\<not> is_list cur \<or> \<not> is_list v \<Longrightarrow> key \<noteq> mtu_setting n \<Longrightarrow>
   compare_values n key cur v = (cur \<noteq> VStr (to_text v), VStr (to_text v))"
  by (auto simp add: compare_values_def)

lemma compare_option_mac:
  assumes "conn_info (mac_setting n) = Some (VStr obs)"
    and "des \<noteq> []"
    and "upper obs = upper des"
  shows "compare_option conn_info (c, db, da, n) (mac_setting n, VStr des) =
           Inr (c, AList.update (mac_setting n) (VStr (upper obs)) db,
                AList.update (mac_setting n) (VStr (upper des)) da, n)"
proof -
  have obs: "obs \<noteq> []"
    using assms(2,3) upper_Nil [of obs] upper_Nil [of des] by simp
  have skip: "\<not> skipped (VStr des)"
    using assms(2) by (simp add: skipped_def)
  have cmp: "compare_values n (mac_setting n) (VStr (upper obs)) (VStr (upper des)) =
               (False, VStr (upper des))"
    using assms(3) mac_not_mtu [of n] by (simp add: compare_values_text)
  show ?thesis
    unfolding compare_option_def
    using assms(1) skip normalize_present_mac [OF assms(2) obs, of n] cmp
    by (simp add: bind_exit_def)
qed

text \<open>
  C5. For the MAC-address setting of the connection type (\<open>mac_setting\<close>): when the
  observed state holds a value for it and the desired value, which is not empty, differs
  from it only in letter case (the two have the same upper-case form, as for the observed
  \<^verbatim>\<open>AA:BB:CC:DD:EE:FF\<close> and the desired \<^verbatim>\<open>aa:bb:cc:dd:ee:ff\<close>), the change detector reports no
  change for that setting: asked about this setting alone it returns \<open>changed = False\<close>,
  with the two upper-case forms in the diff, and among any other options its verdict is
  the one it gives without that entry.
\<close>

theorem compare_mac_case_insensitive:
  assumes "conn_info (mac_setting n) = Some (VStr obs)"
    and "des \<noteq> []"
    and "upper obs = upper des"
    and "upper_exact obs" and "upper_exact des"
  shows "compare_conn_params n conn_info [(mac_setting n, VStr des)] =
           Inr ((False, ([(mac_setting n, VStr (upper obs))],
                         [(mac_setting n, VStr (upper des))])), n) \<and>
         ((\<exists>d. compare_conn_params n conn_info (pre @ (mac_setting n, VStr des) # post) =
                  Inr ((c, d), n')) \<longleftrightarrow>
          (\<exists>d. compare_conn_params n conn_info (pre @ post) = Inr ((c, d), n')))"
proof
  show "compare_conn_params n conn_info [(mac_setting n, VStr des)] =
           Inr ((False, ([(mac_setting n, VStr (upper obs))],
                         [(mac_setting n, VStr (upper des))])), n)"
    using compare_option_mac [of conn_info n obs des False "[]" "[]"] assms(1-3)
    by (simp add: compare_conn_params_def bind_exit_def)
next
  have "\<exists>db' da'. compare_option conn_info (c0, db, da, n1) (mac_setting n, VStr des) =
            Inr (c0, db', da', n1)" if "type n1 = type n" for c0 db da n1
    using compare_option_mac [of conn_info n1 obs des c0 db da] assms(1-3)
      mac_setting_type [OF that] by simp
  then show "(\<exists>d. compare_conn_params n conn_info (pre @ (mac_setting n, VStr des) # post) =
                  Inr ((c, d), n')) \<longleftrightarrow>
             (\<exists>d. compare_conn_params n conn_info (pre @ post) = Inr ((c, d), n'))"
    by (rule fold_compare_neutral_entry)
qed

lemma upper_mac_lower: "upper ''aa:bb:cc:dd:ee:ff'' = ''AA:BB:CC:DD:EE:FF''"
  by code_simp

lemma upper_mac_upper: "upper ''AA:BB:CC:DD:EE:FF'' = ''AA:BB:CC:DD:EE:FF''"
  by code_simp

lemma upper_exact_mac: "upper_exact ''aa:bb:cc:dd:ee:ff''" "upper_exact ''AA:BB:CC:DD:EE:FF''"
  by (simp_all add: upper_exact_def)

lemma mac_setting_default:
  "mac_setting (new_nmcli bin (default_params st name)) = ''802-3-ethernet.cloned-mac-address''"
  by (simp add: mac_setting_def new_nmcli_def default_params_def module_params.defs nmcli.defs)

theorem compare_mac_case_insensitive_witness:
  "fst (projr (compare_conn_params
          (new_nmcli ''/usr/bin/nmcli'' (default_params ''present'' ''eth0''))
          [''802-3-ethernet.cloned-mac-address'' \<mapsto> VStr ''AA:BB:CC:DD:EE:FF'']
          [(''802-3-ethernet.cloned-mac-address'', VStr ''aa:bb:cc:dd:ee:ff'')])) =
     (False, ([(''802-3-ethernet.cloned-mac-address'', VStr ''AA:BB:CC:DD:EE:FF'')],
              [(''802-3-ethernet.cloned-mac-address'', VStr ''AA:BB:CC:DD:EE:FF'')]))"
  using compare_mac_case_insensitive
    [of "[''802-3-ethernet.cloned-mac-address'' \<mapsto> VStr ''AA:BB:CC:DD:EE:FF'']"
        "new_nmcli ''/usr/bin/nmcli'' (default_params ''present'' ''eth0'')"
        "''AA:BB:CC:DD:EE:FF''" "''aa:bb:cc:dd:ee:ff''"]
  by (simp add: mac_setting_default upper_mac_lower upper_mac_upper upper_exact_mac)


subsection \<open>Lists: ordered and unordered comparison\<close>



















lemma routes_rewritten:
  "get_route_params
     (VList [''{ ip = 10.0.0.0/8, nh = 10.0.0.1 }'', ''{ ip = 192.168.0.0/16, nh = 10.0.0.1 }'']) =
   Inr (VList [''10.0.0.0/8 10.0.0.1'', ''192.168.0.0/16 10.0.0.1''])"
  by code_simp




end
